theory Spec2Isabelle
  imports Complex_Main "HOL-Library.Word"
begin

unbundle bit_operations_syntax

section \<open>Errors and formatted messages\<close>

text \<open>
  The numbers the validators receive. A Python \<open>int\<close> is unbounded; a \<open>float\<close> is
  either finite (carried here as the real number it denotes), one of the two infinities,
  or not-a-number. Python compares an \<open>int\<close> with a \<open>float\<close> exactly, so the order
  below is the order of the denoted values; every comparison with NaN is false.
\<close>

datatype pynum = IntNum int | FloatNum real | PosInf | NegInf | NaN

text \<open>
  An f-string is kept as the sequence of its literal pieces and interpolated values, in
  order; the rendering of a value to characters is left to the interpreter.
\<close>

datatype fpart = Lit string | FStr string | FNum pynum | FStrList "string list"

text \<open>
  The exceptions that reach a caller: a \<open>ValueError\<close> with its message, and the
  \<open>OverflowError\<close> raised when a Python \<open>int\<close> does not fit the C integer a library
  function takes.
\<close>

datatype error = ValueError "fpart list" | OverflowError

section \<open>The Arrow schema\<close>

text \<open>
  The type descriptors of the Arrow library that the schema uses. A field carries a name,
  a type and a nullability flag; a list type carries the field of its elements.
\<close>

datatype data_type =
    pa_int32
  | pa_int64
  | pa_float32
  | pa_float64
  | pa_bool
  | pa_string
  | pa_timestamp string "string option"
  | ListType pa_field
  | FixedSizeListType pa_field int
and pa_field = Field (column_name: string) (column_type: data_type) (nullable: bool)

type_synonym schema = "pa_field list"

text \<open>\<open>pa.field(name, type)\<close>: the nullability flag defaults to true.\<close>

definition pa_field :: "string \<Rightarrow> data_type \<Rightarrow> pa_field" where
  "pa_field name ty = Field name ty True"

text \<open>
  \<open>pa.list_(value_field, list_size)\<close> of the Arrow library. Its \<open>list_size\<close> is a
  32-bit signed C integer: a Python \<open>int\<close> outside that range is refused with
  \<open>OverflowError\<close> when the argument is converted, before the body runs. Within the
  range, the size \<open>-1\<close> (the default) asks for a variable-length list, any other
  negative size is refused, and a size from zero on gives a fixed-size list.
\<close>

definition pa_list :: "pa_field \<Rightarrow> int \<Rightarrow> error + data_type" where
  "pa_list value_field list_size =
     (if list_size < - (2 ^ 31) \<or> 2 ^ 31 \<le> list_size then Inl OverflowError
      else if list_size = - 1 then Inr (ListType value_field)
      else if list_size < 0 then Inl (ValueError [Lit ''list_size should be a positive integer''])
      else Inr (FixedSizeListType value_field list_size))"

definition create_vector_field :: "string \<Rightarrow> int \<Rightarrow> error + pa_field" where
  "create_vector_field name dims =
     (case pa_list (Field ''item'' pa_float32 False) dims of
        Inl e \<Rightarrow> Inl e
      | Inr vector_type \<Rightarrow> Inr (pa_field name vector_type))"

text \<open>
  The elements of a list display are evaluated left to right; the first one that raises
  ends the evaluation with its error.
\<close>

fun collect :: "(error + 'a) list \<Rightarrow> error + 'a list" where
  "collect [] = Inr []"
| "collect (Inl e # _) = Inl e"
| "collect (Inr x # xs) = (case collect xs of Inl e \<Rightarrow> Inl e | Inr ys \<Rightarrow> Inr (x # ys))"

definition create_ai_documents_schema :: "int \<Rightarrow> error + schema" where
  "create_ai_documents_schema vector_dims = collect [
     Inr (pa_field ''vastdb_rowid'' pa_int64),
     Inr (pa_field ''UUID'' pa_string),
     Inr (pa_field ''RogersAISchemaVersion'' pa_string),
     Inr (pa_field ''InsertDateTime'' (pa_timestamp ''us'' (Some ''UTC''))),
     Inr (pa_field ''UpdateDateTime'' (pa_timestamp ''us'' (Some ''UTC''))),
     Inr (pa_field ''InsertUser'' pa_string),
     Inr (pa_field ''UpdateUser'' pa_string),
     Inr (pa_field ''SourceDocumentName'' pa_string),
     Inr (pa_field ''SourceDocumentPath'' pa_string),
     Inr (pa_field ''SourceDocumentHash'' pa_string),
     Inr (pa_field ''SourceDocumentTitle'' pa_string),
     Inr (pa_field ''SourceDocumentSummary'' pa_string),
     Inr (pa_field ''SourceDocumentAuthor'' pa_string),
     Inr (pa_field ''SourceDocumentOrganization'' pa_string),
     Inr (pa_field ''DocumentChunkNumber'' pa_int32),
     Inr (pa_field ''DocumentChunkText'' pa_string),
     Inr (pa_field ''DocumentEmbeddingModel01'' pa_string),
     Inr (pa_field ''DocumentEmbeddingURL01'' pa_string),
     create_vector_field ''DocumentEmbeddingVectors01'' vector_dims,
     Inr (pa_field ''DocumentEmbeddingModel02'' pa_string),
     Inr (pa_field ''DocumentEmbeddingURL02'' pa_string),
     create_vector_field ''DocumentEmbeddingVectors02'' vector_dims,
     Inr (pa_field ''DocumentEmbeddingModel03'' pa_string),
     Inr (pa_field ''DocumentEmbeddingURL03'' pa_string),
     create_vector_field ''DocumentEmbeddingVectors03'' vector_dims,
     Inr (pa_field ''DocumentEmbeddingModel04'' pa_string),
     Inr (pa_field ''DocumentEmbeddingURL04'' pa_string),
     create_vector_field ''DocumentEmbeddingVectors04'' vector_dims,
     Inr (pa_field ''DocumentEmbeddingModel05'' pa_string),
     Inr (pa_field ''DocumentEmbeddingURL05'' pa_string),
     create_vector_field ''DocumentEmbeddingVectors05'' vector_dims,
     Inr (pa_field ''ContainsPII'' pa_bool),
     Inr (pa_field ''PIITypes'' pa_string),
     Inr (pa_field ''PIIDetectionMethod'' pa_string),
     Inr (pa_field ''PIIDetectionDate'' (pa_timestamp ''us'' (Some ''UTC''))),
     Inr (pa_field ''SensitiveDataClassification'' pa_string),
     Inr (pa_field ''LegalBasisForProcessing'' pa_string),
     Inr (pa_field ''DataRetentionPeriod'' pa_int32),
     Inr (pa_field ''DeletionScheduledDate'' (pa_timestamp ''us'' (Some ''UTC''))),
     Inr (pa_field ''DeletionStatus'' pa_string),
     Inr (pa_field ''AnonymizationStatus'' pa_string),
     Inr (pa_field ''DatasetType'' pa_string),
     Inr (pa_field ''DatasetPurpose'' pa_string),
     Inr (pa_field ''DataQualityScore'' pa_float64),
     Inr (pa_field ''DataValidationStatus'' pa_string),
     Inr (pa_field ''DataValidationDate'' (pa_timestamp ''us'' (Some ''UTC''))),
     Inr (pa_field ''DataValidatedBy'' pa_string),
     Inr (pa_field ''DataLineageChain'' pa_string),
     Inr (pa_field ''OriginalSourceType'' pa_string),
     Inr (pa_field ''CopyrightStatus'' pa_string),
     Inr (pa_field ''LicenseType'' pa_string),
     Inr (pa_field ''UsageRestrictions'' pa_string),
     Inr (pa_field ''CommercialUseAllowed'' pa_bool),
     Inr (pa_field ''AttributionRequired'' pa_bool),
     Inr (pa_field ''AttributionText'' pa_string),
     Inr (pa_field ''RiskLevel'' pa_string),
     Inr (pa_field ''ContentSafetyStatus'' pa_string),
     Inr (pa_field ''ContentSafetyScore'' pa_float64),
     Inr (pa_field ''ContentModerationDate'' (pa_timestamp ''us'' (Some ''UTC''))),
     Inr (pa_field ''AccessControlLevel'' pa_string),
     Inr (pa_field ''DataClassification'' pa_string),
     Inr (pa_field ''AllowedRoles'' pa_string),
     Inr (pa_field ''LastModifiedReason'' pa_string),
     Inr (pa_field ''DocumentStatus'' pa_string),
     Inr (pa_field ''DocumentVersion'' pa_string)]"

text \<open>Observers of a schema: the declared size of a list column, if it is one.\<close>

fun list_size :: "data_type \<Rightarrow> int option" where
  "list_size (FixedSizeListType _ n) = Some n"
| "list_size _ = None"

fun is_list_type :: "data_type \<Rightarrow> bool" where
  "is_list_type (FixedSizeListType _ _) = True"
| "is_list_type (ListType _) = True"
| "is_list_type _ = False"

text \<open>
  Equality of two schemas as the Arrow library decides it: the same number of fields,
  and at each position the same name, type and nullability.
\<close>

definition field_equals :: "pa_field \<Rightarrow> pa_field \<Rightarrow> bool" where
  "field_equals f g =
     (column_name f = column_name g \<and> column_type f = column_type g \<and> nullable f = nullable g)"

definition schema_equals :: "schema \<Rightarrow> schema \<Rightarrow> bool" where
  "schema_equals s t = list_all2 field_equals s t"

text \<open>
  The field groups that \<open>print_schema_info\<close> lists, each with the number of columns
  it announces.
\<close>

definition groups :: "(string \<times> nat) list" where
  "groups = [
     (''Core Identity & Audit'', 7),
     (''Source Document Metadata'', 7),
     (''Document Content & Chunking'', 2),
     (''Vector Embeddings (5 providers)'', 15),
     (''Privacy & PII Protection'', 10),
     (''Data Governance & Lineage'', 8),
     (''Legal & Licensing Tracking'', 6),
     (''Risk Management & Content Safety'', 4),
     (''Access Control & Security'', 3),
     (''Enhanced Audit Trail'', 1),
     (''Document Lifecycle Management'', 2)]"

section \<open>Field validators\<close>

text \<open>Python's \<open><\<close> and \<open>>\<close> on numbers.\<close>

fun py_lt :: "pynum \<Rightarrow> pynum \<Rightarrow> bool" where
  "py_lt NaN _ = False"
| "py_lt _ NaN = False"
| "py_lt (IntNum a) (IntNum b) = (a < b)"
| "py_lt (IntNum a) (FloatNum b) = (real_of_int a < b)"
| "py_lt (FloatNum a) (IntNum b) = (a < real_of_int b)"
| "py_lt (FloatNum a) (FloatNum b) = (a < b)"
| "py_lt PosInf _ = False"
| "py_lt _ PosInf = True"
| "py_lt _ NegInf = False"
| "py_lt NegInf _ = True"

definition py_gt :: "pynum \<Rightarrow> pynum \<Rightarrow> bool" where
  "py_gt a b = py_lt b a"

definition validate_enum_field :: "string \<Rightarrow> string list \<Rightarrow> string \<Rightarrow> error + string" where
  "validate_enum_field val allowed_values field_name =
     (if val \<notin> set allowed_values
      then Inl (ValueError [Lit (''Invalid value '' @ [CHR 0x27]), FStr val,
                            Lit (CHR 0x27 # '' for ''), FStr field_name, Lit ''. '',
                            Lit ''Allowed values: '', FStrList allowed_values])
      else Inr val)"

definition validate_score_range :: "pynum \<Rightarrow> string \<Rightarrow> pynum \<Rightarrow> pynum \<Rightarrow> error + pynum" where
  "validate_score_range val field_name min_val max_val =
     (if py_lt val min_val \<or> py_gt val max_val
      then Inl (ValueError [Lit ''Invalid value '', FNum val, Lit '' for '', FStr field_name,
                            Lit ''. '', Lit ''Must be between '', FNum min_val, Lit '' and '',
                            FNum max_val])
      else Inr val)"

text \<open>
  What it means for a number to lie in the closed interval from \<open>lo\<close> to \<open>hi\<close>:
  it is comparable with both bounds, not below the lower and not above the upper one.
\<close>

definition in_closed_interval :: "pynum \<Rightarrow> pynum \<Rightarrow> pynum \<Rightarrow> bool" where
  "in_closed_interval v lo hi =
     (v \<noteq> NaN \<and> lo \<noteq> NaN \<and> hi \<noteq> NaN \<and> \<not> py_lt v lo \<and> \<not> py_lt hi v)"

definition ENUM_VALUES :: "(string \<times> string list) list" where
  "ENUM_VALUES = [
     (''PIIDetectionMethod'', [''automated'', ''manual'', ''both'', ''not_detected'']),
     (''SensitiveDataClassification'', [''None'', ''Low'', ''Medium'', ''High'', ''Critical'']),
     (''LegalBasisForProcessing'',
        [''Consent'', ''Contract'', ''LegalObligation'',
         ''VitalInterests'', ''PublicTask'', ''LegitimateInterests'']),
     (''DeletionStatus'', [''Pending'', ''Scheduled'', ''Deleted'', ''Retained'', ''AwaitingApproval'']),
     (''AnonymizationStatus'', [''NotAnonymized'', ''Pseudonymized'', ''FullyAnonymized'']),
     (''DatasetType'',
        [''Training'', ''Validation'', ''Testing'', ''Production'', ''KnowledgeBase'', ''Archive'']),
     (''DataValidationStatus'', [''Pending'', ''Validated'', ''Failed'', ''NeedsReview'', ''InProgress'']),
     (''OriginalSourceType'',
        [''Web'', ''Database'', ''API'', ''FileSystem'', ''Manual'',
         ''Email'', ''S3'', ''SharePoint'', ''Other'']),
     (''CopyrightStatus'',
        [''PublicDomain'', ''Copyrighted'', ''CreativeCommons'',
         ''Unknown'', ''ProprietaryInternal'']),
     (''RiskLevel'', [''Low'', ''Medium'', ''High'', ''Critical'', ''Unassessed'']),
     (''ContentSafetyStatus'', [''Safe'', ''Flagged'', ''Unsafe'', ''UnderReview'', ''NotAssessed'']),
     (''AccessControlLevel'', [''Public'', ''Internal'', ''Confidential'', ''Restricted'', ''Classified'']),
     (''DocumentStatus'',
        [''Draft'', ''Active'', ''Deprecated'', ''Archived'', ''Deleted'', ''UnderReview''])]"

section \<open>The record builder\<close>

text \<open>
  What the builder reads from outside: the clock (the current UTC instant, in
  microseconds) and sixteen bytes of the system's randomness, as one 128-bit number.
\<close>

record world =
  clock_utc :: int
  urandom16 :: "128 word"

datatype pyval =
    PyNone
  | PyStr string
  | PyInt int
  | PyBool bool
  | PyDatetime int
  | PyList "pynum list"

definition ROGERS_AI_SCHEMA_VERSION :: string where
  "ROGERS_AI_SCHEMA_VERSION = ''1.0.0-tier1''"

text \<open>
  \<open>uuid.uuid4()\<close> of the standard library: the random number with the variant bits
  set to \<open>10\<close> and the version bits to \<open>4\<close>.
\<close>

definition uuid4 :: "128 word \<Rightarrow> 128 word" where
  "uuid4 random_bits =
     (((random_bits AND NOT (push_bit 48 0xc000)) OR push_bit 48 0x8000)
        AND NOT (push_bit 64 0xf000)) OR push_bit 76 4"

definition hex_digit :: "nat \<Rightarrow> char" where
  "hex_digit d = ''0123456789abcdef'' ! d"

text \<open>\<open>'%0<width>x' % n\<close> for a number below \<open>16 ^ width\<close>.\<close>

fun hex_pad :: "nat \<Rightarrow> nat \<Rightarrow> string" where
  "hex_pad 0 n = []"
| "hex_pad (Suc width) n = hex_pad width (n div 16) @ [hex_digit (n mod 16)]"

text \<open>The slice \<open>xs[a:b]\<close> for \<open>0 \<le> a \<le> b\<close>.\<close>

definition py_slice :: "nat \<Rightarrow> nat \<Rightarrow> 'a list \<Rightarrow> 'a list" where
  "py_slice a b xs = take (b - a) (drop a xs)"

text \<open>\<open>str\<close> of a UUID: the 32 hexadecimal digits in groups of 8, 4, 4, 4 and 12.\<close>

definition str_uuid :: "128 word \<Rightarrow> string" where
  "str_uuid i =
     (let hex = hex_pad 32 (unat i)
      in take 8 hex @ ''-'' @ py_slice 8 12 hex @ ''-'' @ py_slice 12 16 hex @ ''-''
           @ py_slice 16 20 hex @ ''-'' @ drop 20 hex)"

definition generate_uuid :: "world \<Rightarrow> string" where
  "generate_uuid w = str_uuid (uuid4 (urandom16 w))"

definition get_current_timestamp :: "world \<Rightarrow> int" where
  "get_current_timestamp w = clock_utc w"

text \<open>Truth value of an optional list: \<open>None\<close> and the empty list are false.\<close>

fun truthy :: "'a list option \<Rightarrow> bool" where
  "truthy None = False"
| "truthy (Some xs) = (xs \<noteq> [])"

fun optional :: "('a \<Rightarrow> pyval) \<Rightarrow> 'a option \<Rightarrow> pyval" where
  "optional wrap None = PyNone"
| "optional wrap (Some x) = wrap x"

text \<open>
  The record is a dictionary display with pairwise distinct keys; it is kept as the list
  of its items in order, and \<open>map_of\<close> reads a key.
\<close>

definition create_example_record ::
  "world \<Rightarrow> string \<Rightarrow> string \<Rightarrow> string \<Rightarrow> pynum list option \<Rightarrow> int option
     \<Rightarrow> (string \<times> pyval) list" where
  "create_example_record w insert_user document_name chunk_text embedding_vector vastdb_rowid =
     (let now = get_current_timestamp w in [
        (''vastdb_rowid'', optional PyInt vastdb_rowid),
        (''UUID'', PyStr (generate_uuid w)),
        (''RogersAISchemaVersion'', PyStr ROGERS_AI_SCHEMA_VERSION),
        (''InsertDateTime'', PyDatetime now),
        (''UpdateDateTime'', PyDatetime now),
        (''InsertUser'', PyStr insert_user),
        (''UpdateUser'', PyStr insert_user),
        (''SourceDocumentName'', PyStr document_name),
        (''SourceDocumentPath'', PyNone),
        (''SourceDocumentHash'', PyNone),
        (''SourceDocumentTitle'', PyNone),
        (''SourceDocumentSummary'', PyNone),
        (''SourceDocumentAuthor'', PyNone),
        (''SourceDocumentOrganization'', PyNone),
        (''DocumentChunkNumber'', PyInt 1),
        (''DocumentChunkText'', PyStr chunk_text),
        (''DocumentEmbeddingModel01'',
           if truthy embedding_vector then PyStr ''example-model'' else PyNone),
        (''DocumentEmbeddingURL01'', PyNone),
        (''DocumentEmbeddingVectors01'', optional PyList embedding_vector),
        (''DocumentEmbeddingModel02'', PyNone),
        (''DocumentEmbeddingURL02'', PyNone),
        (''DocumentEmbeddingVectors02'', PyNone),
        (''DocumentEmbeddingModel03'', PyNone),
        (''DocumentEmbeddingURL03'', PyNone),
        (''DocumentEmbeddingVectors03'', PyNone),
        (''DocumentEmbeddingModel04'', PyNone),
        (''DocumentEmbeddingURL04'', PyNone),
        (''DocumentEmbeddingVectors04'', PyNone),
        (''DocumentEmbeddingModel05'', PyNone),
        (''DocumentEmbeddingURL05'', PyNone),
        (''DocumentEmbeddingVectors05'', PyNone),
        (''ContainsPII'', PyBool False),
        (''PIITypes'', PyNone),
        (''PIIDetectionMethod'', PyStr ''not_detected''),
        (''PIIDetectionDate'', PyDatetime now),
        (''SensitiveDataClassification'', PyStr ''None''),
        (''LegalBasisForProcessing'', PyNone),
        (''DataRetentionPeriod'', PyNone),
        (''DeletionScheduledDate'', PyNone),
        (''DeletionStatus'', PyNone),
        (''AnonymizationStatus'', PyStr ''NotAnonymized''),
        (''DatasetType'', PyStr ''Production''),
        (''DatasetPurpose'', PyNone),
        (''DataQualityScore'', PyNone),
        (''DataValidationStatus'', PyStr ''Pending''),
        (''DataValidationDate'', PyNone),
        (''DataValidatedBy'', PyNone),
        (''DataLineageChain'', PyNone),
        (''OriginalSourceType'', PyStr ''FileSystem''),
        (''CopyrightStatus'', PyNone),
        (''LicenseType'', PyNone),
        (''UsageRestrictions'', PyNone),
        (''CommercialUseAllowed'', PyNone),
        (''AttributionRequired'', PyNone),
        (''AttributionText'', PyNone),
        (''RiskLevel'', PyStr ''Low''),
        (''ContentSafetyStatus'', PyStr ''NotAssessed''),
        (''ContentSafetyScore'', PyNone),
        (''ContentModerationDate'', PyNone),
        (''AccessControlLevel'', PyStr ''Internal''),
        (''DataClassification'', PyNone),
        (''AllowedRoles'', PyNone),
        (''LastModifiedReason'', PyStr ''Initial insert''),
        (''DocumentStatus'', PyStr ''Active''),
        (''DocumentVersion'', PyStr ''1.0'')])"

text \<open>
  The canonical textual form of a UUID: 36 characters, hyphens at positions 8, 13, 18 and
  23, and lower-case hexadecimal digits everywhere else.
\<close>

definition is_hex :: "char \<Rightarrow> bool" where
  "is_hex c = (c \<in> set ''0123456789abcdef'')"

definition is_canonical_uuid :: "string \<Rightarrow> bool" where
  "is_canonical_uuid s =
     (length s = 36
      \<and> list_all is_hex (take 8 s) \<and> s ! 8 = CHR ''-''
      \<and> list_all is_hex (py_slice 9 13 s) \<and> s ! 13 = CHR ''-''
      \<and> list_all is_hex (py_slice 14 18 s) \<and> s ! 18 = CHR ''-''
      \<and> list_all is_hex (py_slice 19 23 s) \<and> s ! 23 = CHR ''-''
      \<and> list_all is_hex (drop 24 s))"

text \<open>
  An enum-constrained field of a record is in order when it is null, or a string that
  \<open>validate_enum_field\<close> returns unchanged for the field's allowed values.
\<close>

definition enum_field_ok :: "(string \<times> pyval) list \<Rightarrow> string \<times> string list \<Rightarrow> bool" where
  "enum_field_ok r e =
     (case map_of r (fst e) of
        Some PyNone \<Rightarrow> True
      | Some (PyStr v) \<Rightarrow> v \<in> set (snd e) \<and> validate_enum_field v (snd e) (fst e) = Inr v
      | _ \<Rightarrow> False)"

section \<open>Properties of the schema builder\<close>

lemma create_vector_field_pos:
  "0 < dims \<Longrightarrow> dims < 2 ^ 31 \<Longrightarrow> create_vector_field name dims =
     Inr (Field name (FixedSizeListType (Field ''item'' pa_float32 False) dims) True)"
  by (simp add: create_vector_field_def pa_list_def pa_field_def)

lemma create_vector_field_variable_length:
  "create_vector_field name (- 1) = Inr (Field name (ListType (Field ''item'' pa_float32 False)) True)"
  by (simp add: create_vector_field_def pa_list_def pa_field_def)



lemma field_equals_refl: "field_equals f f"
  by (simp add: field_equals_def)

lemma schema_equals_refl: "schema_equals s s"
  unfolding schema_equals_def by (rule list.rel_refl) (rule field_equals_refl)


text \<open>
  Claim C8, as the code has it. For every name and every positive dimension N below
  2^31, \<open>create_vector_field\<close> returns a column of that name whose type is a
  fixed-size list of length N, whose element field is named "item", holds 32-bit floats
  and is not nullable, and which is itself nullable.
\<close>

theorem create_vector_field_shape:
  "0 < N \<Longrightarrow> N < 2 ^ 31 \<Longrightarrow> \<exists>f. create_vector_field name N = Inr f
     \<and> column_name f = name
     \<and> column_type f = FixedSizeListType (Field ''item'' pa_float32 False) N
     \<and> list_size (column_type f) = Some N
     \<and> nullable f"
  by (simp add: create_vector_field_pos)

theorem create_vector_field_shape_witness:
  "(0::int) < 1024 \<and> (1024::int) < 2 ^ 31
   \<and> (\<exists>f. create_vector_field ''DocumentEmbeddingVectors01'' 1024 = Inr f
     \<and> column_name f = ''DocumentEmbeddingVectors01''
     \<and> column_type f = FixedSizeListType (Field ''item'' pa_float32 False) 1024
     \<and> list_size (column_type f) = Some 1024
     \<and> nullable f)"
  using create_vector_field_shape [of 1024 "''DocumentEmbeddingVectors01''"] by simp

text \<open>
  The claim as stated, for every positive N, fails at N = 2^31: the size does not fit
  the library's 32-bit integer and no column is built.
\<close>

theorem create_vector_field_too_large:
  "create_vector_field ''DocumentEmbeddingVectors01'' 2147483648 = Inl OverflowError"
  by (simp add: create_vector_field_def pa_list_def)

text \<open>
  The column counts that \<open>print_schema_info\<close> announces for the eleven field groups
  add up to 65.
\<close>

lemma groups_total: "sum_list (map snd groups) = 65"
  by (simp add: groups_def)

text \<open>
  Claim C1, as the code has it. For every positive N below 2^31 the schema builder
  returns a schema of exactly 65 columns (not 52), with the names below in this order,
  every column nullable; its list columns are exactly the five embedding-vector columns,
  each a fixed-size list of length N.
\<close>

theorem create_ai_documents_schema_columns:
  "0 < N \<Longrightarrow> N < 2 ^ 31 \<Longrightarrow>
   \<exists>s. create_ai_documents_schema N = Inr s \<and> length s = 65
  \<and> map column_name s = [
      ''vastdb_rowid'', ''UUID'', ''RogersAISchemaVersion'', ''InsertDateTime'',
      ''UpdateDateTime'', ''InsertUser'', ''UpdateUser'',
      ''SourceDocumentName'', ''SourceDocumentPath'', ''SourceDocumentHash'',
      ''SourceDocumentTitle'', ''SourceDocumentSummary'', ''SourceDocumentAuthor'',
      ''SourceDocumentOrganization'',
      ''DocumentChunkNumber'', ''DocumentChunkText'',
      ''DocumentEmbeddingModel01'', ''DocumentEmbeddingURL01'', ''DocumentEmbeddingVectors01'',
      ''DocumentEmbeddingModel02'', ''DocumentEmbeddingURL02'', ''DocumentEmbeddingVectors02'',
      ''DocumentEmbeddingModel03'', ''DocumentEmbeddingURL03'', ''DocumentEmbeddingVectors03'',
      ''DocumentEmbeddingModel04'', ''DocumentEmbeddingURL04'', ''DocumentEmbeddingVectors04'',
      ''DocumentEmbeddingModel05'', ''DocumentEmbeddingURL05'', ''DocumentEmbeddingVectors05'',
      ''ContainsPII'', ''PIITypes'', ''PIIDetectionMethod'', ''PIIDetectionDate'',
      ''SensitiveDataClassification'', ''LegalBasisForProcessing'', ''DataRetentionPeriod'',
      ''DeletionScheduledDate'', ''DeletionStatus'', ''AnonymizationStatus'',
      ''DatasetType'', ''DatasetPurpose'', ''DataQualityScore'', ''DataValidationStatus'',
      ''DataValidationDate'', ''DataValidatedBy'', ''DataLineageChain'',
      ''OriginalSourceType'',
      ''CopyrightStatus'', ''LicenseType'', ''UsageRestrictions'', ''CommercialUseAllowed'',
      ''AttributionRequired'', ''AttributionText'',
      ''RiskLevel'', ''ContentSafetyStatus'', ''ContentSafetyScore'',
      ''ContentModerationDate'',
      ''AccessControlLevel'', ''DataClassification'', ''AllowedRoles'',
      ''LastModifiedReason'',
      ''DocumentStatus'', ''DocumentVersion'']
  \<and> list_all nullable s
  \<and> [(column_name f, list_size (column_type f)). f \<leftarrow> s, is_list_type (column_type f)] =
     [(''DocumentEmbeddingVectors01'', Some N), (''DocumentEmbeddingVectors02'', Some N),
      (''DocumentEmbeddingVectors03'', Some N), (''DocumentEmbeddingVectors04'', Some N),
      (''DocumentEmbeddingVectors05'', Some N)]"
  by (simp add: create_ai_documents_schema_def create_vector_field_pos pa_field_def)

theorem create_ai_documents_schema_columns_witness:
  "(0::int) < 1024 \<and> (1024::int) < 2 ^ 31
   \<and> (\<exists>s. create_ai_documents_schema 1024 = Inr s \<and> length s = 65
  \<and> [(column_name f, list_size (column_type f)). f \<leftarrow> s, is_list_type (column_type f)] =
     [(''DocumentEmbeddingVectors01'', Some 1024), (''DocumentEmbeddingVectors02'', Some 1024),
      (''DocumentEmbeddingVectors03'', Some 1024), (''DocumentEmbeddingVectors04'', Some 1024),
      (''DocumentEmbeddingVectors05'', Some 1024)])"
  using create_ai_documents_schema_columns [of 1024] by auto

text \<open>
  The claim as stated fails twice: at N = 1024 the schema does not have 52 columns, and
  at N = 2^31 no schema is built at all.
\<close>

theorem create_ai_documents_schema_not_52:
  "map_sum id length (create_ai_documents_schema 1024) \<noteq> Inr 52
   \<and> create_ai_documents_schema 2147483648 = Inl OverflowError"
  by (simp add: create_ai_documents_schema_def create_vector_field_def pa_list_def pa_field_def)




section \<open>Properties of the validators\<close>

text \<open>
  Claim C3. For every value and every list of allowed values, \<open>validate_enum_field\<close>
  returns the value unchanged if and only if the value is a member of the list; otherwise
  it raises the error whose message is made of the offending value, the field name and
  the allowed values.
\<close>

theorem validate_enum_field_member:
  "(validate_enum_field v allowed f = Inr v) = (v \<in> set allowed)
   \<and> (\<forall>x. validate_enum_field v allowed f = Inr x \<longrightarrow> x = v)
   \<and> (v \<notin> set allowed \<longrightarrow>
        (\<exists>msg. validate_enum_field v allowed f = Inl (ValueError msg)
           \<and> FStr v \<in> set msg \<and> FStr f \<in> set msg \<and> FStrList allowed \<in> set msg))"
  by (simp add: validate_enum_field_def)

theorem validate_enum_field_member_witness:
  "validate_enum_field ''Active'' [''Draft'', ''Active'', ''Deprecated''] ''DocumentStatus''
     = Inr ''Active''
   \<and> ''Bogus'' \<notin> set [''Draft'', ''Active'', ''Deprecated'']
   \<and> (\<exists>msg. validate_enum_field ''Bogus'' [''Draft'', ''Active'', ''Deprecated''] ''DocumentStatus''
           = Inl (ValueError msg)
        \<and> FStr ''Bogus'' \<in> set msg \<and> FStr ''DocumentStatus'' \<in> set msg
        \<and> FStrList [''Draft'', ''Active'', ''Deprecated''] \<in> set msg)"
  using validate_enum_field_member
          [of "''Active''" "[''Draft'', ''Active'', ''Deprecated'']" "''DocumentStatus''"]
        validate_enum_field_member
          [of "''Bogus''" "[''Draft'', ''Active'', ''Deprecated'']" "''DocumentStatus''"]
  by simp

text \<open>
  With the default bounds the range validator is exact on every number other than NaN:
  it returns the value unchanged exactly when the value lies in the closed interval from
  0 to 100, and raises otherwise.
\<close>

lemma validate_score_range_non_nan:
  "v \<noteq> NaN \<Longrightarrow>
     (validate_score_range v f (IntNum 0) (IntNum 100) = Inr v)
       = in_closed_interval v (IntNum 0) (IntNum 100)"
  by (cases v) (auto simp: validate_score_range_def py_gt_def in_closed_interval_def)

lemma validate_score_range_rejects:
  "py_lt v (IntNum 0) \<or> py_gt v (IntNum 100) \<Longrightarrow>
     validate_score_range v f (IntNum 0) (IntNum 100) =
       Inl (ValueError [Lit ''Invalid value '', FNum v, Lit '' for '', FStr f, Lit ''. '',
                        Lit ''Must be between '', FNum (IntNum 0), Lit '' and '',
                        FNum (IntNum 100)])"
  by (simp add: validate_score_range_def)

lemma validate_score_range_boundaries:
  "validate_score_range (IntNum 0) f (IntNum 0) (IntNum 100) = Inr (IntNum 0)
   \<and> validate_score_range (FloatNum 100) f (IntNum 0) (IntNum 100) = Inr (FloatNum 100)
   \<and> validate_score_range (FloatNum (- 0.0001)) f (IntNum 0) (IntNum 100)
       \<noteq> Inr (FloatNum (- 0.0001))
   \<and> validate_score_range (FloatNum 100.0001) f (IntNum 0) (IntNum 100)
       \<noteq> Inr (FloatNum 100.0001)"
  by (simp add: validate_score_range_def py_gt_def)

text \<open>
  Claim C4 fails on NaN. NaN does not lie in the closed interval from 0 to 100, yet both
  comparisons of the validator are false for it, so the validator returns it as a
  validated score.
\<close>

theorem validate_score_range_nan:
  "validate_score_range NaN f (IntNum 0) (IntNum 100) = Inr NaN
   \<and> \<not> in_closed_interval NaN (IntNum 0) (IntNum 100)"
  by (simp add: validate_score_range_def py_gt_def in_closed_interval_def)

section \<open>Properties of the record builder\<close>

lemmas lookup_simps =
  map_of_Cons_code list.inject char.inject simp_thms if_False if_True

lemma record_keys_distinct: "distinct (map fst (create_example_record w u d c ev rid))"
  by (simp add: create_example_record_def Let_def)

text \<open>The keys of a record are the column names of the schema, in the same order.\<close>

lemma record_keys_are_columns:
  "0 < N \<Longrightarrow> N < 2 ^ 31 \<Longrightarrow> map_sum id (map column_name) (create_ai_documents_schema N)
     = Inr (map fst (create_example_record w u d c ev rid))"
  by (simp add: create_ai_documents_schema_def create_vector_field_pos pa_field_def
        create_example_record_def Let_def)

lemma length_hex_pad: "length (hex_pad k n) = k"
  by (induction k arbitrary: n) simp_all

lemma is_hex_hex_digit: "is_hex (hex_digit (n mod 16))"
proof -
  have "n mod 16 < length ''0123456789abcdef''" by simp
  then show ?thesis unfolding is_hex_def hex_digit_def by (rule nth_mem)
qed

lemma all_hex_hex_pad: "list_all is_hex (hex_pad k n)"
  by (induction k arbitrary: n) (simp_all add: is_hex_hex_digit)

lemma list_all_take: "list_all P xs \<Longrightarrow> list_all P (take n xs)"
  by (auto simp: list_all_iff dest: in_set_takeD)

lemma list_all_drop: "list_all P xs \<Longrightarrow> list_all P (drop n xs)"
  by (auto simp: list_all_iff dest: in_set_dropD)

lemma canonical_groups:
  assumes "length a = 8" "length b = 4" "length c = 4" "length d = 4" "length e = 12"
    and "list_all is_hex a" "list_all is_hex b" "list_all is_hex c" "list_all is_hex d"
        "list_all is_hex e"
  shows "is_canonical_uuid (a @ ''-'' @ b @ ''-'' @ c @ ''-'' @ d @ ''-'' @ e)"
  using assms by (simp add: is_canonical_uuid_def py_slice_def nth_append)

lemma str_uuid_canonical: "is_canonical_uuid (str_uuid i)"
  unfolding str_uuid_def Let_def
  by (rule canonical_groups)
     (simp_all add: py_slice_def length_hex_pad all_hex_hex_pad list_all_take list_all_drop)

lemma generate_uuid_canonical: "is_canonical_uuid (generate_uuid w)"
  by (simp add: generate_uuid_def str_uuid_canonical)

lemma identity_lookups:
  "map_of (create_example_record w u d c ev rid) ''vastdb_rowid'' = Some (optional PyInt rid)
   \<and> map_of (create_example_record w u d c ev rid) ''UUID'' = Some (PyStr (generate_uuid w))
   \<and> map_of (create_example_record w u d c ev rid) ''DocumentChunkNumber'' = Some (PyInt 1)
   \<and> map_of (create_example_record w u d c ev rid) ''ContainsPII'' = Some (PyBool False)"
  unfolding create_example_record_def Let_def by (simp only: lookup_simps)

lemma slot_lookups:
  "map_of (create_example_record w u d c ev rid) ''DocumentEmbeddingModel01'' = Some (if truthy ev then PyStr ''example-model'' else PyNone)
   \<and> map_of (create_example_record w u d c ev rid) ''DocumentEmbeddingURL01'' = Some (PyNone)
   \<and> map_of (create_example_record w u d c ev rid) ''DocumentEmbeddingVectors01'' = Some (optional PyList ev)
   \<and> map_of (create_example_record w u d c ev rid) ''DocumentEmbeddingModel02'' = Some (PyNone)
   \<and> map_of (create_example_record w u d c ev rid) ''DocumentEmbeddingURL02'' = Some (PyNone)
   \<and> map_of (create_example_record w u d c ev rid) ''DocumentEmbeddingVectors02'' = Some (PyNone)
   \<and> map_of (create_example_record w u d c ev rid) ''DocumentEmbeddingModel03'' = Some (PyNone)
   \<and> map_of (create_example_record w u d c ev rid) ''DocumentEmbeddingURL03'' = Some (PyNone)
   \<and> map_of (create_example_record w u d c ev rid) ''DocumentEmbeddingVectors03'' = Some (PyNone)
   \<and> map_of (create_example_record w u d c ev rid) ''DocumentEmbeddingModel04'' = Some (PyNone)
   \<and> map_of (create_example_record w u d c ev rid) ''DocumentEmbeddingURL04'' = Some (PyNone)
   \<and> map_of (create_example_record w u d c ev rid) ''DocumentEmbeddingVectors04'' = Some (PyNone)
   \<and> map_of (create_example_record w u d c ev rid) ''DocumentEmbeddingModel05'' = Some (PyNone)
   \<and> map_of (create_example_record w u d c ev rid) ''DocumentEmbeddingURL05'' = Some (PyNone)
   \<and> map_of (create_example_record w u d c ev rid) ''DocumentEmbeddingVectors05'' = Some (PyNone)"
  unfolding create_example_record_def Let_def by (simp only: lookup_simps)

lemma enum_lookups:
  "map_of (create_example_record w u d c ev rid) ''PIIDetectionMethod'' = Some (PyStr ''not_detected'')
   \<and> map_of (create_example_record w u d c ev rid) ''SensitiveDataClassification'' = Some (PyStr ''None'')
   \<and> map_of (create_example_record w u d c ev rid) ''LegalBasisForProcessing'' = Some (PyNone)
   \<and> map_of (create_example_record w u d c ev rid) ''DeletionStatus'' = Some (PyNone)
   \<and> map_of (create_example_record w u d c ev rid) ''AnonymizationStatus'' = Some (PyStr ''NotAnonymized'')
   \<and> map_of (create_example_record w u d c ev rid) ''DatasetType'' = Some (PyStr ''Production'')
   \<and> map_of (create_example_record w u d c ev rid) ''DataValidationStatus'' = Some (PyStr ''Pending'')
   \<and> map_of (create_example_record w u d c ev rid) ''OriginalSourceType'' = Some (PyStr ''FileSystem'')
   \<and> map_of (create_example_record w u d c ev rid) ''CopyrightStatus'' = Some (PyNone)
   \<and> map_of (create_example_record w u d c ev rid) ''RiskLevel'' = Some (PyStr ''Low'')
   \<and> map_of (create_example_record w u d c ev rid) ''ContentSafetyStatus'' = Some (PyStr ''NotAssessed'')
   \<and> map_of (create_example_record w u d c ev rid) ''AccessControlLevel'' = Some (PyStr ''Internal'')
   \<and> map_of (create_example_record w u d c ev rid) ''DocumentStatus'' = Some (PyStr ''Active'')"
  unfolding create_example_record_def Let_def by (simp only: lookup_simps)

text \<open>
  For every supplied non-empty embedding vector, the record has
  DocumentEmbeddingModel01 set to the placeholder "example-model",
  DocumentEmbeddingVectors01 equal to the supplied vector, and the model, URL and vector
  of the provider slots 02 to 05 null.
\<close>

lemma embedding_slot_non_empty:
  "v \<noteq> [] \<Longrightarrow>
     map_of (create_example_record w u d c (Some v) rid) ''DocumentEmbeddingModel01''
       = Some (PyStr ''example-model'')
     \<and> map_of (create_example_record w u d c (Some v) rid) ''DocumentEmbeddingVectors01''
       = Some (PyList v)
     \<and> list_all (\<lambda>k. map_of (create_example_record w u d c (Some v) rid) k = Some PyNone)
         [''DocumentEmbeddingModel02'', ''DocumentEmbeddingURL02'', ''DocumentEmbeddingVectors02'',
          ''DocumentEmbeddingModel03'', ''DocumentEmbeddingURL03'', ''DocumentEmbeddingVectors03'',
          ''DocumentEmbeddingModel04'', ''DocumentEmbeddingURL04'', ''DocumentEmbeddingVectors04'',
          ''DocumentEmbeddingModel05'', ''DocumentEmbeddingURL05'', ''DocumentEmbeddingVectors05'']"
  by (simp add: slot_lookups)

text \<open>
  Claim C2 fails at the empty vector. The vector is provided and stored in
  DocumentEmbeddingVectors01, but the truth value of an empty list is false, so
  DocumentEmbeddingModel01 is left null instead of being set to the placeholder.
\<close>

theorem empty_vector_leaves_model_null:
  "map_of (create_example_record \<lparr>clock_utc = 0, urandom16 = 0\<rparr> ''alice'' ''doc.pdf'' ''hello'' (Some []) None)
      ''DocumentEmbeddingVectors01'' = Some (PyList [])
   \<and> map_of (create_example_record \<lparr>clock_utc = 0, urandom16 = 0\<rparr> ''alice'' ''doc.pdf'' ''hello'' (Some []) None)
      ''DocumentEmbeddingModel01'' = Some PyNone
   \<and> map_of (create_example_record \<lparr>clock_utc = 0, urandom16 = 0\<rparr> ''alice'' ''doc.pdf'' ''hello'' (Some []) None)
      ''DocumentEmbeddingModel01'' \<noteq> Some (PyStr ''example-model'')"
  by (simp add: slot_lookups)

text \<open>
  Claim C10. If the supplied embedding vector is the empty list, the record has
  DocumentEmbeddingVectors01 equal to the empty list and DocumentEmbeddingModel01 null;
  the model name is the placeholder exactly when a non-empty vector is supplied.
\<close>

theorem example_record_empty_vector:
  "map_of (create_example_record w u d c (Some []) rid) ''DocumentEmbeddingVectors01''
     = Some (PyList [])
   \<and> map_of (create_example_record w u d c (Some []) rid) ''DocumentEmbeddingModel01''
     = Some PyNone
   \<and> (map_of (create_example_record w u d c ev rid) ''DocumentEmbeddingModel01''
        = Some (PyStr ''example-model'')) = (\<exists>v. ev = Some v \<and> v \<noteq> [])"
  by (cases ev) (simp_all add: slot_lookups)

text \<open>
  Claim C5. For user "alice", document "doc.pdf", chunk text "hello", no embedding vector
  and no row identifier, whatever the clock and the random bits are, the record has
  ContainsPII false, DocumentStatus "Active", DocumentChunkNumber 1,
  DocumentEmbeddingVectors01 null, and a UUID field that is a string in the canonical
  UUID format.
\<close>

theorem example_record_alice:
  "map_of (create_example_record w ''alice'' ''doc.pdf'' ''hello'' None None) ''ContainsPII''
     = Some (PyBool False)
   \<and> map_of (create_example_record w ''alice'' ''doc.pdf'' ''hello'' None None) ''DocumentStatus''
     = Some (PyStr ''Active'')
   \<and> map_of (create_example_record w ''alice'' ''doc.pdf'' ''hello'' None None)
       ''DocumentChunkNumber'' = Some (PyInt 1)
   \<and> map_of (create_example_record w ''alice'' ''doc.pdf'' ''hello'' None None)
       ''DocumentEmbeddingVectors01'' = Some PyNone
   \<and> (\<exists>s. map_of (create_example_record w ''alice'' ''doc.pdf'' ''hello'' None None) ''UUID''
           = Some (PyStr s) \<and> is_canonical_uuid s)"
  by (simp add: identity_lookups slot_lookups enum_lookups generate_uuid_canonical)

text \<open>
  Claim C6. A record built without a row identifier has the vastdb_rowid field null, and
  a record built with a row identifier of at most 2^48 - 1 carries that identifier
  unchanged in the vastdb_rowid field.
\<close>

theorem example_record_rowid:
  "map_of (create_example_record w u d c ev None) ''vastdb_rowid'' = Some PyNone
   \<and> (rid \<le> 2 ^ 48 - 1 \<longrightarrow>
        map_of (create_example_record w u d c ev (Some rid)) ''vastdb_rowid''
          = Some (PyInt rid))"
  by (simp add: identity_lookups)

theorem example_record_rowid_witness:
  "map_of (create_example_record \<lparr>clock_utc = 0, urandom16 = 0\<rparr> ''pipeline'' ''doc.pdf'' ''content'' None None)
      ''vastdb_rowid'' = Some PyNone
   \<and> (281474976710655 :: int) \<le> 2 ^ 48 - 1
   \<and> map_of (create_example_record \<lparr>clock_utc = 0, urandom16 = 0\<rparr> ''pipeline'' ''doc.pdf'' ''content'' None
        (Some 281474976710655)) ''vastdb_rowid'' = Some (PyInt 281474976710655)"
  using example_record_rowid
          [of "\<lparr>clock_utc = 0, urandom16 = 0\<rparr>" "''pipeline''" "''doc.pdf''" "''content''" None 281474976710655]
  by simp

text \<open>The builder checks no bound: any row identifier is carried unchanged.\<close>

lemma rowid_carried_unchanged:
  "map_of (create_example_record w u d c ev (Some rid)) ''vastdb_rowid'' = Some (PyInt rid)"
  by (simp add: identity_lookups)

text \<open>
  Claim C9. For every input, each field of the record that \<open>ENUM_VALUES\<close> constrains
  is either null or a string in the field's allowed values, one that
  \<open>validate_enum_field\<close> returns unchanged.
\<close>

theorem example_record_enums_valid:
  "\<forall>e \<in> set ENUM_VALUES. enum_field_ok (create_example_record w u d c ev rid) e"
  by (simp add: ENUM_VALUES_def enum_field_ok_def enum_lookups validate_enum_field_def)

theorem example_record_enums_valid_witness:
  "(''RiskLevel'', [''Low'', ''Medium'', ''High'', ''Critical'', ''Unassessed''])
      \<in> set ENUM_VALUES
   \<and> enum_field_ok
        (create_example_record \<lparr>clock_utc = 0, urandom16 = 0\<rparr> ''alice'' ''doc.pdf'' ''hello'' None None)
        (''RiskLevel'', [''Low'', ''Medium'', ''High'', ''Critical'', ''Unassessed''])"
proof -
  have m: "(''RiskLevel'', [''Low'', ''Medium'', ''High'', ''Critical'', ''Unassessed''])
             \<in> set ENUM_VALUES"
    by (simp add: ENUM_VALUES_def)
  from example_record_enums_valid
         [of "\<lparr>clock_utc = 0, urandom16 = 0\<rparr>" "''alice''" "''doc.pdf''" "''hello''" None None] m
  show ?thesis by blast
qed

end
